theory Spec2Isabelle
  imports Complex_Main
begin

section \<open>Warehouse layout configurator: unit conversion, gap arrays, placement, addresses\<close>

text \<open>
  The development embeds the parts of the warehouse visualizer that carry its
  arithmetic and indexing rules: the unit conversion tables of the pallet, workstation
  and warehouse components, the editing operations on a side's custom-gap array, the
  rebuild of the workstation configuration list, the placement of a pallet mesh inside
  a storage cell, and the SQL query deriving the search identifier of a pallet.

  Modelling conventions.
  \<^item> A JavaScript \<open>number\<close> holding a measure is a \<open>real\<close>: arithmetic is exact, so a
    statement about equality of measures is a statement about the decimal constants of
    the source, not about IEEE rounding. Counts and indices are \<open>int\<close> or \<open>nat\<close>.
  \<^item> An object literal used as a lookup table is an association list read with
    \<open>map_of\<close>; a key that is not one of the literal's own keys yields \<open>None\<close>
    (\<open>undefined\<close>). Keys inherited from the object prototype are outside the model.
  \<^item> \<open>a || b\<close> on numbers takes \<open>b\<close> when \<open>a\<close> is \<open>undefined\<close> or \<open>0\<close>; on strings when
    \<open>a\<close> is \<open>undefined\<close> or empty. A gap array is a list, and an absent one is the
    empty list (\<open>custom_gaps || []\<close>).
  \<^item> An exception is a value: a function that can throw returns \<open>js_error + 'a\<close>.
\<close>

subsection \<open>JavaScript defaults\<close>

definition num_or :: "real option \<Rightarrow> real \<Rightarrow> real" where
  "num_or a b = (case a of None \<Rightarrow> b | Some x \<Rightarrow> if x = 0 then b else x)"

definition str_or :: "string option \<Rightarrow> string \<Rightarrow> string" where
  "str_or a b = (case a of None \<Rightarrow> b | Some s \<Rightarrow> if s = [] then b else s)"

definition upper_lower :: "(char \<times> char) list" where
  "upper_lower = zip ''ABCDEFGHIJKLMNOPQRSTUVWXYZ'' ''abcdefghijklmnopqrstuvwxyz''"

definition lower_char :: "char \<Rightarrow> char" where
  "lower_char c = (case map_of upper_lower c of None \<Rightarrow> c | Some d \<Rightarrow> d)"

definition toLowerCase :: "string \<Rightarrow> string" where
  "toLowerCase s = map lower_char s"

subsection \<open>Unit selection lists and conversion tables (pallet-config component)\<close>


definition weightUnits :: "string list" where
  "weightUnits = [''kg'', ''lbs'', ''g'', ''t'', ''oz'']"

definition toCm_conversions :: "(string \<times> real) list" where
  "toCm_conversions =
     [(''cm'', 1), (''m'', 100), (''mm'', 0.1), (''ft'', 30.48), (''in'', 2.54)]"

definition toKg_conversions :: "(string \<times> real) list" where
  "toKg_conversions = [(''kg'', 1), (''lbs'', 0.453592)]"


definition fromKg_conversions :: "(string \<times> real) list" where
  "fromKg_conversions = [(''kg'', 1), (''lbs'', 2.20462)]"

definition convertToCm :: "real \<Rightarrow> string \<Rightarrow> real" where
  "convertToCm v u = v * num_or (map_of toCm_conversions u) 1"

definition convertToKg :: "real \<Rightarrow> string \<Rightarrow> real" where
  "convertToKg v u = v * num_or (map_of toKg_conversions u) 1"


definition convertFromKg :: "real \<Rightarrow> string \<Rightarrow> real" where
  "convertFromKg v u = v * num_or (map_of fromKg_conversions u) 1"

subsection \<open>Conversion factors of the visualization and warehouse components\<close>



definition factors :: "(string \<times> real) list" where
  "factors = [(''cm'', 1), (''m'', 100), (''mm'', 0.1), (''ft'', 30.48), (''in'', 2.54)]"

definition getUnitConversionFactor :: "string option \<Rightarrow> real" where
  "getUnitConversionFactor unit =
     num_or (case unit of None \<Rightarrow> None
             | Some u \<Rightarrow> map_of factors (toLowerCase u)) 1"

subsection \<open>Configuration records (warehouse.models.ts)\<close>

datatype js_error = TypeError

datatype side = SLeft | SRight

record side_config =
  num_floors :: int
  num_rows :: int
  num_aisles :: int
  custom_gaps :: "real list"
  depth :: int
  deep_gaps :: "real list"
  gap_front :: real
  gap_back :: real
  gap_left :: real
  gap_right :: real
  wall_gap_unit :: string

record position =
  pos_floor :: int
  pos_row :: int
  pos_col :: int
  pos_depth :: "int option"
  pos_side :: "string option"

record pallet_config =
  pallet_type :: string
  weight :: real
  length_cm :: real
  width_cm :: real
  height_cm :: real
  color :: string
  position :: position

record workstation_config =
  workstation_index :: nat
  aisle_space :: real
  aisle_space_unit :: string
  left_side_config :: side_config
  right_side_config :: side_config
  pallet_configs :: "pallet_config list"

subsection \<open>The warehouse component: editing state and its operations\<close>

text \<open>
  The component keeps an untyped array \<open>workstations\<close> of form objects (fields prefixed
  \<open>ui_\<close> here, to tell them from the fields of \<open>WorkstationConfig\<close>) and rebuilds
  \<open>warehouseConfig.workstation_configs\<close> from it after every edit.
\<close>

record gap_entry =
  gap_value :: real
  gap_unit :: string

record wall_gaps =
  wg_front :: "gap_entry option"
  wg_back :: "gap_entry option"
  wg_left :: "gap_entry option"
  wg_right :: "gap_entry option"

record ui_workstation =
  ui_aisle_space :: real
  ui_aisle_space_unit :: string
  ui_left_side_config :: side_config
  ui_right_side_config :: side_config
  leftWallGaps :: "wall_gaps option"
  rightWallGaps :: "wall_gaps option"
  pallets :: "pallet_config list"

record warehouse_component =
  workstations :: "ui_workstation list"
  config_workstation_configs :: "workstation_config list"

definition palletColors :: "(string \<times> string) list" where
  "palletColors =
     [(''wooden'', ''#8B4513''), (''plastic'', ''#1E90FF''), (''metal'', ''#A9A9A9'')]"

definition defaultSideConfig :: side_config where
  "defaultSideConfig =
     \<lparr>num_floors = 4, num_rows = 4, num_aisles = 2, custom_gaps = [], depth = 1,
      deep_gaps = [], gap_front = 100, gap_back = 100, gap_left = 100, gap_right = 100,
      wall_gap_unit = ''cm''\<rparr>"

definition defaultWallGaps :: wall_gaps where
  "defaultWallGaps =
     \<lparr>wg_front = Some \<lparr>gap_value = 100, gap_unit = ''cm''\<rparr>,
      wg_back = Some \<lparr>gap_value = 100, gap_unit = ''cm''\<rparr>,
      wg_left = Some \<lparr>gap_value = 100, gap_unit = ''cm''\<rparr>,
      wg_right = Some \<lparr>gap_value = 100, gap_unit = ''cm''\<rparr>\<rparr>"

definition createDefaultWorkstation :: ui_workstation where
  "createDefaultWorkstation =
     \<lparr>ui_aisle_space = 500, ui_aisle_space_unit = ''cm'',
      ui_left_side_config = defaultSideConfig, ui_right_side_config = defaultSideConfig,
      leftWallGaps = Some defaultWallGaps, rightWallGaps = Some defaultWallGaps,
      pallets = []\<rparr>"

text \<open>The three local helpers of \<open>updateWorkstationConfigs\<close>, then its body per workstation.\<close>

definition getGapCm :: "wall_gaps option \<Rightarrow> (wall_gaps \<Rightarrow> gap_entry option) \<Rightarrow> real" where
  "getGapCm gaps key =
     (let entry = (case gaps of None \<Rightarrow> None | Some g \<Rightarrow> key g)
      in num_or (map_option gap_value entry) 0
         * getUnitConversionFactor (Some (str_or (map_option gap_unit entry) ''cm'')))"

definition convertGaps :: "real list \<Rightarrow> string \<Rightarrow> real list" where
  "convertGaps gaps unit =
     map (\<lambda>g. g * getUnitConversionFactor (Some (str_or (Some unit) ''cm''))) gaps"

definition convertSideConfig :: "side_config \<Rightarrow> wall_gaps option \<Rightarrow> side_config" where
  "convertSideConfig sc wg =
     sc\<lparr>gap_front := getGapCm wg wg_front,
        gap_back := getGapCm wg wg_back,
        gap_left := getGapCm wg wg_left,
        gap_right := getGapCm wg wg_right,
        custom_gaps := convertGaps (custom_gaps sc) (str_or (Some (wall_gap_unit sc)) ''cm''),
        wall_gap_unit := ''cm''\<rparr>"

definition buildWorkstationConfig :: "nat \<times> ui_workstation \<Rightarrow> workstation_config" where
  "buildWorkstationConfig iw =
     (let index = fst iw; workstation = snd iw;
          aisleWidthCm = num_or (Some (ui_aisle_space workstation)) 200
            * getUnitConversionFactor
                (Some (str_or (Some (ui_aisle_space_unit workstation)) ''cm''))
      in \<lparr>workstation_index = index,
          aisle_space = aisleWidthCm,
          aisle_space_unit = ''cm'',
          left_side_config =
            convertSideConfig (ui_left_side_config workstation) (leftWallGaps workstation),
          right_side_config =
            convertSideConfig (ui_right_side_config workstation) (rightWallGaps workstation),
          pallet_configs =
            map (\<lambda>pallet. pallet\<lparr>color := str_or (map_of palletColors (pallet_type pallet))
                                                 ''#8B4513''\<rparr>)
              (pallets workstation)\<rparr>)"

text \<open>\<open>this.workstations.map((workstation, index) => ...)\<close>: the callback sees each element with its position.\<close>

definition updateWorkstationConfigs :: "warehouse_component \<Rightarrow> warehouse_component" where
  "updateWorkstationConfigs st =
     st\<lparr>config_workstation_configs :=
          map buildWorkstationConfig (enumerate 0 (workstations st))\<rparr>"

text \<open>
  \<open>updateAisleGaps\<close>: the number of gaps a side needs (\<open>requiredGaps\<close>), a fresh
  array of that length filled with the default 50, and the \<open>for\<close> loop copying the
  existing values over it (\<open>preserve_gaps\<close>, from index \<open>i\<close> on). \<open>rebuildGaps\<close> is the
  body of the method on the selected side configuration; \<open>get_side\<close> and \<open>set_side\<close>
  read and write the side the parameter \<open>side\<close> selects.
\<close>

definition requiredGaps :: "int \<Rightarrow> int \<Rightarrow> nat" where
  "requiredGaps numAisles dep = nat (max 0 (numAisles * dep - 1))"

function preserve_gaps :: "nat \<Rightarrow> real list \<Rightarrow> real list \<Rightarrow> real list" where
  "preserve_gaps i currentGaps newGaps =
     (if i < min (length currentGaps) (length newGaps)
      then preserve_gaps (i + 1) currentGaps (newGaps[i := currentGaps ! i])
      else newGaps)"
  by pat_completeness auto
termination
  by (relation "measure (\<lambda>(i, c, n). min (length c) (length n) - i)") auto

declare preserve_gaps.simps [simp del]

definition rebuildGaps :: "side_config \<Rightarrow> side_config" where
  "rebuildGaps sideConfig =
     (let numAisles = num_aisles sideConfig;
          dep = depth sideConfig;
          required = requiredGaps numAisles dep;
          currentGaps = custom_gaps sideConfig;
          newGaps = replicate required 50
      in sideConfig\<lparr>custom_gaps := preserve_gaps 0 currentGaps newGaps\<rparr>)"

definition get_side :: "side \<Rightarrow> ui_workstation \<Rightarrow> side_config" where
  "get_side sd w =
     (case sd of SLeft \<Rightarrow> ui_left_side_config w | SRight \<Rightarrow> ui_right_side_config w)"

definition set_side :: "side \<Rightarrow> side_config \<Rightarrow> ui_workstation \<Rightarrow> ui_workstation" where
  "set_side sd sc w =
     (case sd of SLeft \<Rightarrow> w\<lparr>ui_left_side_config := sc\<rparr>
      | SRight \<Rightarrow> w\<lparr>ui_right_side_config := sc\<rparr>)"

text \<open>
  Reading \<open>this.workstations[workstationIndex]\<close> outside the array gives \<open>undefined\<close>, and
  the property access on it throws a \<open>TypeError\<close>; this is the only failing branch.
\<close>

definition updateAisleGaps ::
  "warehouse_component \<Rightarrow> int \<Rightarrow> side \<Rightarrow> js_error + warehouse_component" where
  "updateAisleGaps st workstationIndex sd =
     (if 0 \<le> workstationIndex \<and> workstationIndex < int (length (workstations st))
      then let i = nat workstationIndex;
               workstation = workstations st ! i;
               sideConfig = rebuildGaps (get_side sd workstation)
           in Inr (updateWorkstationConfigs
                    (st\<lparr>workstations :=
                          (workstations st)[i := set_side sd sideConfig workstation]\<rparr>))
      else Inl TypeError)"

definition onSideConfigChange ::
  "warehouse_component \<Rightarrow> int \<Rightarrow> side \<Rightarrow> js_error + warehouse_component" where
  "onSideConfigChange st workstationIndex sd = updateAisleGaps st workstationIndex sd"

subsection \<open>The workstation form component and its gap editor\<close>

text \<open>
  The form edits one side configuration (\<open>aisleConfig\<close>) through a list of gap entries
  with units (\<open>aisleGaps\<close>). An array read past the end gives \<open>undefined\<close>
  (\<open>nth_opt\<close>). Events sent to the parent are returned next to the new state.
\<close>

datatype form_event = AisleConfigChange side_config | UpdateAisleGaps

record workstation_form =
  aisleConfig :: side_config
  aisleGaps :: "gap_entry list"

definition nth_opt :: "'a list \<Rightarrow> nat \<Rightarrow> 'a option" where
  "nth_opt xs i = (if i < length xs then Some (xs ! i) else None)"

definition initializeAisleGaps :: "workstation_form \<Rightarrow> workstation_form" where
  "initializeAisleGaps c =
     (let numGaps = num_aisles (aisleConfig c) - 1
      in c\<lparr>aisleGaps :=
            map (\<lambda>i. \<lparr>gap_value = num_or (nth_opt (custom_gaps (aisleConfig c)) i) 20,
                       gap_unit = str_or (Some (wall_gap_unit (aisleConfig c))) ''cm''\<rparr>)
              [0..<nat numGaps]\<rparr>)"

definition onAisleConfigChange :: "workstation_form \<Rightarrow> workstation_form \<times> form_event list" where
  "onAisleConfigChange c =
     (let cfg = (aisleConfig c)
                  \<lparr>custom_gaps :=
                     map (\<lambda>gap. convertToCm (gap_value gap) (gap_unit gap)) (aisleGaps c)\<rparr>
      in (c\<lparr>aisleConfig := cfg\<rparr>, [AisleConfigChange cfg, UpdateAisleGaps]))"

definition addAisleGap :: "workstation_form \<Rightarrow> workstation_form \<times> form_event list" where
  "addAisleGap c =
     (if num_aisles (aisleConfig c) > 0
      then onAisleConfigChange
             (initializeAisleGaps
               (c\<lparr>aisleConfig := (aisleConfig c)\<lparr>num_aisles := num_aisles (aisleConfig c) + 1\<rparr>\<rparr>))
      else (c, []))"

definition removeAisleGap :: "workstation_form \<Rightarrow> workstation_form \<times> form_event list" where
  "removeAisleGap c =
     (if num_aisles (aisleConfig c) > 1
      then onAisleConfigChange
             (initializeAisleGaps
               (c\<lparr>aisleConfig := (aisleConfig c)\<lparr>num_aisles := num_aisles (aisleConfig c) - 1\<rparr>\<rparr>))
      else (c, []))"

subsection \<open>Pallet placement in a storage cell (visualization component)\<close>

text \<open>
  \<open>drawStorageAisle\<close> puts the group of a cell at the cell's centre and calls
  \<open>drawPallet\<close> with the cell's width, length and height. \<open>drawPallet\<close> builds a box
  geometry, which is centred on its mesh, and positions the mesh inside the group. The
  result is the box's three sizes and the mesh position, in the frame whose origin is
  the centre of the cell: there the cell's floor is at \<open>z = - aisleHeight / 2\<close> and the
  base of the box at the mesh's \<open>z\<close> minus half the box's height.
\<close>

record pallet_dims =
  dims_length :: real
  dims_width :: real
  dims_height :: real

record pallet_data =
  data_type :: string
  data_color :: string
  dims :: "pallet_dims option"

record pallet_mesh =
  geo_width :: real
  geo_length :: real
  geo_height :: real
  mesh_x :: real
  mesh_y :: real
  mesh_z :: real

definition drawPallet :: "pallet_data \<Rightarrow> real \<Rightarrow> real \<Rightarrow> real \<Rightarrow> pallet_mesh" where
  "drawPallet pallet aisleWidth aisleLength aisleHeight =
     (let pw = num_or (map_option dims_width (dims pallet)) (aisleWidth * 0.8);
          pl = num_or (map_option dims_length (dims pallet)) (aisleLength * 0.8);
          ph = num_or (map_option dims_height (dims pallet)) (aisleHeight * 0.6)
      in \<lparr>geo_width = min pw (aisleWidth * 0.9),
          geo_length = min pl (aisleLength * 0.9),
          geo_height = min ph (aisleHeight * 0.8),
          mesh_x = 0, mesh_y = 0,
          mesh_z = - aisleHeight / 2 + ph / 2 + 5\<rparr>)"

definition mesh_base_z :: "pallet_mesh \<Rightarrow> real" where
  "mesh_base_z m = mesh_z m - geo_height m / 2"

definition cell_floor_z :: "real \<Rightarrow> real" where
  "cell_floor_z aisleHeight = - aisleHeight / 2"

definition sample_pallet :: pallet_data where
  "sample_pallet =
     \<lparr>data_type = ''wooden'', data_color = ''#8B4513'',
      dims = Some \<lparr>dims_length = 120, dims_width = 100, dims_height = 15\<rparr>\<rparr>"

subsection \<open>Decimal text of an integer\<close>

text \<open>
  \<open>CONCAT\<close> renders an integer argument in decimal, with a leading minus sign when
  negative (\<open>show_int\<close>). \<open>read_nat\<close> reads a digit string back; it serves to show
  that the rendering loses nothing.
\<close>

definition digit_char :: "nat \<Rightarrow> char" where
  "digit_char d = ''0123456789'' ! d"

function show_nat :: "nat \<Rightarrow> string" where
  "show_nat n =
     (if n < 10 then [digit_char n] else show_nat (n div 10) @ [digit_char (n mod 10)])"
  by pat_completeness auto
termination
  by (relation "measure id") auto

declare show_nat.simps [simp del]

definition show_int :: "int \<Rightarrow> string" where
  "show_int i = (if i < 0 then CHR ''-'' # show_nat (nat (- i)) else show_nat (nat i))"

definition digit_val :: "char \<Rightarrow> nat" where
  "digit_val c =
     (case map_of (zip ''0123456789'' [0, 1, 2, 3, 4, 5, 6, 7, 8, 9]) c of
        None \<Rightarrow> 0 | Some d \<Rightarrow> d)"

definition read_nat :: "string \<Rightarrow> nat" where
  "read_nat s = foldl (\<lambda>acc c. 10 * acc + digit_val c) 0 s"

subsection \<open>Search identifiers (the verification query of the SQL schema)\<close>

text \<open>
  The rows of \<open>workstation_table\<close> and \<open>warehouse_pallet_table\<close>, with the columns the
  tables declare (the unit column of the pallet table, which no statement of the file
  sets or reads, is left out); columns are non-null. Fields carry the table alias of
  the query as a prefix.

  The query joins each pallet with the workstations of the same \<open>workstation_id\<close>,
  numbers the joined rows inside each partition
  \<open>(workstation_id, side, floor_idx, row_idx, aisle_idx)\<close> by ascending \<open>pallet_id\<close>, and
  concatenates the search identifier. \<open>ROW_NUMBER()\<close> is one more than the number of
  rows of the partition with a smaller \<open>pallet_id\<close>; \<open>pallet_id\<close> is the primary key,
  so no two rows of a partition tie. The final \<open>ORDER BY\<close> permutes the result rows
  and changes none of them; the model keeps the rows in join order. Of the selected
  columns the two bracketed position texts are left out.
\<close>

record workstation_row =
  w_workstation_id :: int
  w_warehouse_id :: string
  w_workstation_index :: int
  w_workstation_gap :: real

record pallet_row =
  p_pallet_id :: int
  p_workstation_id :: int
  p_type :: string
  p_weight :: real
  p_length :: real
  p_width :: real
  p_height :: real
  p_color :: string
  p_side :: string
  p_floor_idx :: int
  p_row_idx :: int
  p_aisle_idx :: int
  p_deep_idx :: int

record result_row =
  r_pallet_id :: int
  r_search_id :: string
  r_type :: string
  r_color :: string
  r_side :: string
  r_weight :: real

definition joined ::
  "pallet_row list \<Rightarrow> workstation_row list \<Rightarrow> (pallet_row \<times> workstation_row) list" where
  "joined ps ws =
     concat (map (\<lambda>p. map (\<lambda>w. (p, w))
                         (filter (\<lambda>w. p_workstation_id p = w_workstation_id w) ws)) ps)"

definition same_partition :: "pallet_row \<Rightarrow> pallet_row \<Rightarrow> bool" where
  "same_partition q p \<longleftrightarrow>
     p_workstation_id q = p_workstation_id p \<and> p_side q = p_side p
     \<and> p_floor_idx q = p_floor_idx p \<and> p_row_idx q = p_row_idx p
     \<and> p_aisle_idx q = p_aisle_idx p"

definition row_number :: "(pallet_row \<times> workstation_row) list \<Rightarrow> pallet_row \<Rightarrow> nat" where
  "row_number rows p =
     Suc (length (filter (\<lambda>qw. same_partition (fst qw) p
                               \<and> p_pallet_id (fst qw) < p_pallet_id p) rows))"

definition concat_search_id :: "int \<Rightarrow> int \<Rightarrow> int \<Rightarrow> int \<Rightarrow> int \<Rightarrow> string" where
  "concat_search_id ws r c f p =
     ''WS'' @ show_int ws @ ''-R'' @ show_int r @ ''-C'' @ show_int c
     @ ''-F'' @ show_int f @ ''-P'' @ show_int p"

definition search_id ::
  "(pallet_row \<times> workstation_row) list \<Rightarrow> pallet_row \<times> workstation_row \<Rightarrow> string" where
  "search_id rows pw =
     (let p = fst pw; w = snd pw
      in concat_search_id (w_workstation_index w + 1) (p_row_idx p + 1) (p_aisle_idx p + 1)
           (p_floor_idx p + 1) (int (row_number rows p)))"

definition search_id_query :: "pallet_row list \<Rightarrow> workstation_row list \<Rightarrow> result_row list" where
  "search_id_query ps ws =
     (let rows = joined ps ws
      in map (\<lambda>pw. \<lparr>r_pallet_id = p_pallet_id (fst pw), r_search_id = search_id rows pw,
                     r_type = p_type (fst pw), r_color = p_color (fst pw),
                     r_side = p_side (fst pw), r_weight = p_weight (fst pw)\<rparr>) rows)"

text \<open>
  The sample data of the schema file: two workstations of warehouse \<open>WH-DB-01\<close> and ten
  pallets, with the keys the \<open>SERIAL\<close> columns give them. \<open>insert_pallet\<close> takes the
  key, then the values in the column order of the \<open>INSERT\<close> statements.
\<close>

definition sample_workstations :: "workstation_row list" where
  "sample_workstations =
     [\<lparr>w_workstation_id = 1, w_warehouse_id = ''WH-DB-01'', w_workstation_index = 0,
        w_workstation_gap = 100\<rparr>,
      \<lparr>w_workstation_id = 2, w_warehouse_id = ''WH-DB-01'', w_workstation_index = 1,
        w_workstation_gap = 100\<rparr>]"

definition insert_pallet ::
  "int \<Rightarrow> int \<Rightarrow> string \<Rightarrow> string \<Rightarrow> string \<Rightarrow> real \<Rightarrow> real \<Rightarrow> real \<Rightarrow> real
     \<Rightarrow> int \<Rightarrow> int \<Rightarrow> int \<Rightarrow> int \<Rightarrow> pallet_row" where
  "insert_pallet pid wid ty col sd wt len wd ht f r a d =
     \<lparr>p_pallet_id = pid, p_workstation_id = wid, p_type = ty, p_weight = wt,
      p_length = len, p_width = wd, p_height = ht, p_color = col, p_side = sd,
      p_floor_idx = f, p_row_idx = r, p_aisle_idx = a, p_deep_idx = d\<rparr>"

definition sample_pallets :: "pallet_row list" where
  "sample_pallets =
     [insert_pallet 1 1 ''Wooden'' ''#8B4513'' ''left'' 15 120 100 15 0 0 0 0,
      insert_pallet 2 1 ''Plastic'' ''#1E90FF'' ''left'' 15 120 100 14 1 0 0 0,
      insert_pallet 3 1 ''Metal'' ''#A9A9A9'' ''left'' 45 120 100 15 2 0 0 0,
      insert_pallet 4 1 ''Wooden'' ''#8B4513'' ''left'' 30 120 100 15 0 1 1 0,
      insert_pallet 5 1 ''Plastic'' ''#1E90FF'' ''right'' 18 120 80 14 0 0 0 0,
      insert_pallet 6 1 ''Metal'' ''#A9A9A9'' ''right'' 50 120 100 15 3 3 0 1,
      insert_pallet 7 2 ''Wooden'' ''#8B4513'' ''left'' 22 120 100 15 0 4 0 0,
      insert_pallet 8 2 ''Plastic'' ''#1E90FF'' ''left'' 12.5 110 110 12 1 2 1 0,
      insert_pallet 9 2 ''Metal'' ''#A9A9A9'' ''right'' 60 120 100 15 2 4 0 1,
      insert_pallet 10 2 ''Wooden'' ''#8B4513'' ''right'' 28 120 100 15 1 3 0 0]"

text \<open>The sample data with one more pallet inserted into the cell of pallet 1.\<close>

definition stacked_pallets :: "pallet_row list" where
  "stacked_pallets =
     sample_pallets @ [insert_pallet 11 1 ''Metal'' ''#A9A9A9'' ''left'' 40 120 100 15 0 0 0 0]"

subsection \<open>The address as the specification words it\<close>




subsection \<open>Concrete editing states\<close>


definition two_default :: warehouse_component where
  "two_default =
     \<lparr>workstations = [createDefaultWorkstation, createDefaultWorkstation],
      config_workstation_configs = []\<rparr>"

definition deep_form :: workstation_form where
  "deep_form =
     \<lparr>aisleConfig = defaultSideConfig\<lparr>num_aisles := 1, depth := 2, custom_gaps := [50]\<rparr>,
      aisleGaps = []\<rparr>"

section \<open>Properties of the unit conversions\<close>














text \<open>
  C10: the weight units \<open>g\<close>, \<open>t\<close> and \<open>oz\<close> are offered by the selection list of the
  pallet form, and \<open>convertToKg\<close> has no factor for them: a weight entered in one of
  these units is returned numerically unchanged.
\<close>

theorem C10_unlisted_weight_units:
  "u \<in> {''g'', ''t'', ''oz''} \<Longrightarrow> u \<in> set weightUnits \<and> convertToKg v u = v"
  by (auto simp add: weightUnits_def convertToKg_def toKg_conversions_def num_or_def)

theorem C10_unlisted_weight_units_witness:
  "''g'' \<in> set weightUnits \<and> convertToKg 1500 ''g'' = 1500"
  using C10_unlisted_weight_units [of "''g''" 1500]
  by simp

section \<open>Properties of the gap arrays\<close>

subsection \<open>The copy loop of \<open>updateAisleGaps\<close>\<close>

lemma preserve_gaps_length: "length (preserve_gaps i c n) = length n"
proof (induction i c n rule: preserve_gaps.induct)
  case (1 i c n)
  show ?case
  proof (cases "i < min (length c) (length n)")
    case True
    then have "preserve_gaps i c n = preserve_gaps (i + 1) c (n[i := c ! i])"
      by (auto simp add: preserve_gaps.simps [of i c n])
    with 1 True show ?thesis by simp
  next
    case False
    then have "preserve_gaps i c n = n"
      by (auto simp add: preserve_gaps.simps [of i c n])
    then show ?thesis by simp
  qed
qed




lemma rebuildGaps_length:
  "length (custom_gaps (rebuildGaps sc)) = requiredGaps (num_aisles sc) (depth sc)"
  by (simp add: rebuildGaps_def Let_def preserve_gaps_length)

lemma rebuildGaps_counts:
  "num_aisles (rebuildGaps sc) = num_aisles sc" "depth (rebuildGaps sc) = depth sc"
  by (simp_all add: rebuildGaps_def Let_def)

lemma get_side_set_side: "get_side sd (set_side sd sc w) = sc"
  by (cases sd) (simp_all add: get_side_def set_side_def)

lemma workstations_updateWorkstationConfigs:
  "workstations (updateWorkstationConfigs st) = workstations st"
  by (simp add: updateWorkstationConfigs_def)

text \<open>
  For a workstation index inside the array, \<open>updateAisleGaps\<close> returns, and the edited
  side of the new state is the old one with its gap array rebuilt.
\<close>

lemma updateAisleGaps_in_range:
  assumes "0 \<le> wi" "wi < int (length (workstations st))"
  shows "\<exists>st'. updateAisleGaps st wi sd = Inr st'
           \<and> length (workstations st') = length (workstations st)
           \<and> get_side sd (workstations st' ! nat wi)
               = rebuildGaps (get_side sd (workstations st ! nat wi))"
  using assms
  by (simp add: updateAisleGaps_def Let_def workstations_updateWorkstationConfigs
      get_side_set_side)

text \<open>
  The gap array \<open>updateAisleGaps\<close> leaves on the edited side has the length the side's
  own counts require.
\<close>

lemma updateAisleGaps_establishes_arity:
  assumes "0 \<le> wi" "wi < int (length (workstations st))"
  shows "\<exists>st'. updateAisleGaps st wi sd = Inr st'
           \<and> length (custom_gaps (get_side sd (workstations st' ! nat wi)))
               = requiredGaps (num_aisles (get_side sd (workstations st' ! nat wi)))
                   (depth (get_side sd (workstations st' ! nat wi)))"
proof -
  from updateAisleGaps_in_range [OF assms, of sd] obtain st' where
    "updateAisleGaps st wi sd = Inr st'"
    "get_side sd (workstations st' ! nat wi)
       = rebuildGaps (get_side sd (workstations st ! nat wi))"
    by blast
  then show ?thesis
    by (simp add: rebuildGaps_length rebuildGaps_counts)
qed




subsection \<open>Gap arity\<close>




text \<open>
  C4: after an operation that rebuilds a side's gap array, the array has
  \<open>max(0, num_aisles * depth - 1)\<close> entries. The form component computes the number of
  gaps as \<open>num_aisles - 1\<close>, without the depth: on a side with 1 aisle of depth 2 and
  one gap (the invariant holds), \<open>addAisleGap\<close> leaves 2 aisles of depth 2 with one gap
  where three are required.
\<close>

theorem C4_form_gap_arity_broken:
  "length (custom_gaps (aisleConfig deep_form))
     = requiredGaps (num_aisles (aisleConfig deep_form)) (depth (aisleConfig deep_form))
   \<and> num_aisles (aisleConfig (fst (addAisleGap deep_form))) = 2
   \<and> depth (aisleConfig (fst (addAisleGap deep_form))) = 2
   \<and> custom_gaps (aisleConfig (fst (addAisleGap deep_form))) = [50]
   \<and> requiredGaps (num_aisles (aisleConfig (fst (addAisleGap deep_form))))
        (depth (aisleConfig (fst (addAisleGap deep_form)))) = 3"
  by (simp add: deep_form_def addAisleGap_def initializeAisleGaps_def onAisleConfigChange_def
      defaultSideConfig_def requiredGaps_def Let_def nth_opt_def num_or_def str_or_def
      convertToCm_def toCm_conversions_def)



section \<open>Properties of the workstation configuration list\<close>

lemma workstation_index_build: "workstation_index (buildWorkstationConfig iw) = fst iw"
  by (simp add: buildWorkstationConfig_def Let_def)

lemma updateWorkstationConfigs_indices:
  "map workstation_index (config_workstation_configs (updateWorkstationConfigs st))
     = [0..<length (workstations st)]"
proof -
  have "map workstation_index (map buildWorkstationConfig (enumerate 0 (workstations st)))
        = map fst (enumerate 0 (workstations st))"
    by (simp add: workstation_index_build comp_def)
  then show ?thesis
    by (simp add: updateWorkstationConfigs_def)
qed

text \<open>
  C8: after \<open>updateWorkstationConfigs\<close>, the configuration list has one entry per
  workstation, the entry at position \<open>i\<close> has \<open>workstation_index = i\<close>, and the
  indices are pairwise distinct.
\<close>

theorem C8_workstation_index_contiguous:
  "let cfgs = config_workstation_configs (updateWorkstationConfigs st)
   in length cfgs = length (workstations st)
      \<and> (\<forall>i < length cfgs. workstation_index (cfgs ! i) = i)
      \<and> distinct (map workstation_index cfgs)"
proof -
  define cfgs where "cfgs = config_workstation_configs (updateWorkstationConfigs st)"
  have idx: "map workstation_index cfgs = [0..<length (workstations st)]"
    unfolding cfgs_def by (rule updateWorkstationConfigs_indices)
  then have len: "length cfgs = length (workstations st)"
    by (metis length_map length_upt diff_zero)
  have "workstation_index (cfgs ! i) = i" if "i < length cfgs" for i
  proof -
    from that have "workstation_index (cfgs ! i) = map workstation_index cfgs ! i"
      by simp
    also have "\<dots> = i" using that len by (simp add: idx)
    finally show ?thesis .
  qed
  moreover have "distinct (map workstation_index cfgs)"
    by (simp add: idx)
  ultimately show ?thesis
    using len by (simp add: cfgs_def Let_def)
qed

theorem C8_workstation_index_contiguous_witness:
  "length (config_workstation_configs (updateWorkstationConfigs two_default)) = 2
   \<and> workstation_index (config_workstation_configs (updateWorkstationConfigs two_default) ! 1)
       = 1"
  using C8_workstation_index_contiguous [of two_default]
  by (simp add: Let_def two_default_def)

section \<open>Properties of the pallet placement\<close>

text \<open>
  C5 (as stated): the placed box is centred on the cell's horizontal plane, its base is
  exactly on the cell's floor, and it is clipped to the cell. For a pallet of height 15
  in a cell 200 by 200 by 100 the floor of the cell is at \<open>z = -50\<close> and the base of the
  box at \<open>z = -45\<close>: the mesh is raised by 5.
\<close>

theorem C5_placement_counterexample:
  "mesh_base_z (drawPallet sample_pallet 200 200 100) = - 45 \<and> cell_floor_z 100 = - 50"
  by (simp add: mesh_base_z_def drawPallet_def sample_pallet_def cell_floor_z_def Let_def
      num_or_def)

text \<open>
  C5 (amended): for a pallet with configured, non-zero dimensions drawn in a cell, the
  box is centred on the cell's horizontal plane; its width and length are the minimum
  of the configured size and 90% of the cell's, its height the minimum of the configured
  height and 80% of the cell's (an oversized pallet is shrunk; \<open>drawPallet\<close> has no
  rejecting branch); and when the height is not clipped, the base of the box is 5 above
  the cell's floor.
\<close>

theorem C5_placement:
  assumes "dims pallet = Some d"
    and "dims_width d \<noteq> 0" "dims_length d \<noteq> 0" "dims_height d \<noteq> 0"
  shows "mesh_x (drawPallet pallet w l h) = 0 \<and> mesh_y (drawPallet pallet w l h) = 0
     \<and> geo_width (drawPallet pallet w l h) = min (dims_width d) (w * 0.9)
     \<and> geo_length (drawPallet pallet w l h) = min (dims_length d) (l * 0.9)
     \<and> geo_height (drawPallet pallet w l h) = min (dims_height d) (h * 0.8)
     \<and> (dims_height d \<le> h * 0.8
          \<longrightarrow> mesh_base_z (drawPallet pallet w l h) = cell_floor_z h + 5)"
  using assms
  by (simp add: drawPallet_def Let_def num_or_def mesh_base_z_def cell_floor_z_def)

theorem C5_placement_witness:
  "mesh_x (drawPallet sample_pallet 100 200 100) = 0
   \<and> mesh_y (drawPallet sample_pallet 100 200 100) = 0
   \<and> geo_width (drawPallet sample_pallet 100 200 100) = 90
   \<and> geo_length (drawPallet sample_pallet 100 200 100) = 120
   \<and> geo_height (drawPallet sample_pallet 100 200 100) = 15
   \<and> mesh_base_z (drawPallet sample_pallet 100 200 100) = - 45"
  using C5_placement [of sample_pallet
      "\<lparr>dims_length = 120, dims_width = 100, dims_height = 15\<rparr>" 100 200 100]
  by (simp add: sample_pallet_def cell_floor_z_def)

section \<open>Properties of the search identifiers\<close>

subsection \<open>Decimal text is injective and free of the separator letters\<close>

lemma lt10_cases: "d < 10 \<Longrightarrow> d \<in> {0, 1, 2, 3, 4, 5, 6, 7, 8, 9::nat}"
  by auto

lemma digit_val_digit_char: "d < 10 \<Longrightarrow> digit_val (digit_char d) = d"
  by (drule lt10_cases) (auto simp add: digit_val_def digit_char_def)

lemma digit_char_in: "d < 10 \<Longrightarrow> digit_char d \<in> set ''0123456789''"
  by (drule lt10_cases) (auto simp add: digit_char_def)

lemma show_nat_digits: "set (show_nat n) \<subseteq> set ''0123456789''"
proof (induction n rule: show_nat.induct)
  case (1 n)
  show ?case
  proof (cases "n < 10")
    case True
    then show ?thesis
      using digit_char_in [of n] by (simp add: show_nat.simps [of n])
  next
    case False
    with 1 show ?thesis
      using digit_char_in [of "n mod 10"] by (simp add: show_nat.simps [of n])
  qed
qed

lemma read_show_nat: "read_nat (show_nat n) = n"
proof (induction n rule: show_nat.induct)
  case (1 n)
  show ?case
  proof (cases "n < 10")
    case True
    then show ?thesis
      by (simp add: show_nat.simps [of n] read_nat_def digit_val_digit_char)
  next
    case False
    with 1 have "read_nat (show_nat (n div 10)) = n div 10" by simp
    with False show ?thesis
      by (simp add: show_nat.simps [of n] read_nat_def digit_val_digit_char)
  qed
qed

lemma show_nat_inj: "show_nat m = show_nat n \<Longrightarrow> m = n"
  by (metis read_show_nat)

lemma show_nat_no_minus: "show_nat n \<noteq> CHR ''-'' # s"
proof
  assume "show_nat n = CHR ''-'' # s"
  then have "CHR ''-'' \<in> set (show_nat n)" by simp
  with show_nat_digits [of n] show False by auto
qed

lemma show_int_inj:
  assumes "show_int i = show_int j"
  shows "i = j"
proof (cases "i < 0")
  case True
  show ?thesis
  proof (cases "j < 0")
    case j: True
    with True assms have "show_nat (nat (- i)) = show_nat (nat (- j))"
      by (simp add: show_int_def)
    then have "nat (- i) = nat (- j)" by (rule show_nat_inj)
    with True j show ?thesis by simp
  next
    case j: False
    with True assms have "show_nat (nat j) = CHR ''-'' # show_nat (nat (- i))"
      by (simp add: show_int_def)
    with show_nat_no_minus show ?thesis by blast
  qed
next
  case False
  show ?thesis
  proof (cases "j < 0")
    case j: True
    with False assms have "show_nat (nat i) = CHR ''-'' # show_nat (nat (- j))"
      by (simp add: show_int_def)
    with show_nat_no_minus show ?thesis by blast
  next
    case j: False
    with False assms have "show_nat (nat i) = show_nat (nat j)"
      by (simp add: show_int_def)
    then have "nat i = nat j" by (rule show_nat_inj)
    with False j show ?thesis by simp
  qed
qed

lemma show_nat_sep: "c \<notin> set ''0123456789'' \<Longrightarrow> c \<notin> set (show_nat n)"
  using show_nat_digits [of n] by blast

lemma show_int_sep:
  assumes "c \<notin> set ''0123456789''" "c \<noteq> CHR ''-''"
  shows "c \<notin> set (show_int i)"
proof (cases "i < 0")
  case True
  then have "show_int i = CHR ''-'' # show_nat (nat (- i))"
    by (simp add: show_int_def)
  with assms show_nat_sep [of c "nat (- i)"] show ?thesis
    by (simp del: set_simps add: list.set(2))
next
  case False
  then have "show_int i = show_nat (nat i)"
    by (simp add: show_int_def)
  with assms show_nat_sep [of c "nat i"] show ?thesis
    by (simp del: set_simps)
qed

lemma split_unique:
  "c \<notin> set a \<Longrightarrow> c \<notin> set b \<Longrightarrow> a @ c # x = b @ c # y \<Longrightarrow> a = b \<and> x = y"
proof (induction a arbitrary: b)
  case Nil
  then show ?case by (cases b) auto
next
  case (Cons h a)
  then show ?case by (cases b) auto
qed


subsection \<open>The concatenated identifier determines its five numbers\<close>

lemma sep_R: "CHR ''R'' \<notin> set (show_int i @ ''-'')"
  using show_int_sep [of "CHR ''R''" i] by simp
lemma sep_C: "CHR ''C'' \<notin> set (show_int i @ ''-'')"
  using show_int_sep [of "CHR ''C''" i] by simp
lemma sep_F: "CHR ''F'' \<notin> set (show_int i @ ''-'')"
  using show_int_sep [of "CHR ''F''" i] by simp
lemma sep_P: "CHR ''P'' \<notin> set (show_int i @ ''-'')"
  using show_int_sep [of "CHR ''P''" i] by simp

lemma field_split:
  assumes "c \<notin> set (show_int i @ ''-'')" "c \<notin> set (show_int j @ ''-'')"
    and "show_int i @ ''-'' @ c # x = show_int j @ ''-'' @ c # y"
  shows "i = j \<and> x = y"
proof -
  from assms(3) have "(show_int i @ ''-'') @ c # x = (show_int j @ ''-'') @ c # y"
    by simp
  from split_unique [OF assms(1,2) this] have "show_int i = show_int j" "x = y"
    by simp_all
  then show ?thesis by (simp add: show_int_inj)
qed

lemma concat_search_id_inj:
  assumes "concat_search_id a b c d e = concat_search_id a' b' c' d' e'"
  shows "a = a' \<and> b = b' \<and> c = c' \<and> d = d' \<and> e = e'"
proof -
  from assms have
    "show_int a @ ''-'' @ CHR ''R'' # (show_int b @ ''-C'' @ show_int c @ ''-F'' @ show_int d @ ''-P'' @ show_int e)
     = show_int a' @ ''-'' @ CHR ''R'' # (show_int b' @ ''-C'' @ show_int c' @ ''-F'' @ show_int d' @ ''-P'' @ show_int e')"
    by (simp add: concat_search_id_def)
  from field_split [OF sep_R sep_R this] have a: "a = a'" and
    "show_int b @ ''-'' @ CHR ''C'' # (show_int c @ ''-F'' @ show_int d @ ''-P'' @ show_int e)
     = show_int b' @ ''-'' @ CHR ''C'' # (show_int c' @ ''-F'' @ show_int d' @ ''-P'' @ show_int e')"
    by simp_all
  from field_split [OF sep_C sep_C this(2)] have b: "b = b'" and
    "show_int c @ ''-'' @ CHR ''F'' # (show_int d @ ''-P'' @ show_int e)
     = show_int c' @ ''-'' @ CHR ''F'' # (show_int d' @ ''-P'' @ show_int e')"
    by simp_all
  from field_split [OF sep_F sep_F this(2)] have c: "c = c'" and
    "show_int d @ ''-'' @ CHR ''P'' # show_int e = show_int d' @ ''-'' @ CHR ''P'' # show_int e'"
    by simp_all
  from field_split [OF sep_P sep_P this(2)] have d: "d = d'" and "show_int e = show_int e'"
    by simp_all
  with a b c show ?thesis by (simp add: show_int_inj)
qed

subsection \<open>Row numbers inside a partition\<close>

lemma in_joined:
  "(p, w) \<in> set (joined ps ws) \<longleftrightarrow>
     p \<in> set ps \<and> w \<in> set ws \<and> p_workstation_id p = w_workstation_id w"
  by (auto simp add: joined_def)

lemma length_filter_mono:
  "(\<And>x. x \<in> set xs \<Longrightarrow> P x \<Longrightarrow> Q x) \<Longrightarrow> length (filter P xs) \<le> length (filter Q xs)"
proof (induction xs)
  case Nil
  then show ?case by simp
next
  case (Cons x xs)
  then have "length (filter P xs) \<le> length (filter Q xs)" by simp
  with Cons.prems [of x] show ?case by auto
qed

lemma length_filter_less:
  assumes "\<And>x. x \<in> set xs \<Longrightarrow> P x \<Longrightarrow> Q x" and "y \<in> set xs" "Q y" "\<not> P y"
  shows "length (filter P xs) < length (filter Q xs)"
  using assms
proof (induction xs)
  case Nil
  then show ?case by simp
next
  case (Cons x xs)
  have le: "length (filter P xs) \<le> length (filter Q xs)"
    using Cons.prems(1) by (intro length_filter_mono) simp
  show ?case
  proof (cases "y = x")
    case True
    with Cons.prems le show ?thesis by simp
  next
    case False
    with Cons.prems have "y \<in> set xs" by simp
    with Cons.IH Cons.prems have "length (filter P xs) < length (filter Q xs)" by simp
    with Cons.prems(1) show ?thesis by auto
  qed
qed

lemma same_partition_sym: "same_partition q p \<Longrightarrow> same_partition p q"
  by (simp add: same_partition_def)

lemma same_partition_trans: "same_partition r q \<Longrightarrow> same_partition q p \<Longrightarrow> same_partition r p"
  by (simp add: same_partition_def)

lemma row_number_less:
  assumes "(p, w) \<in> set rows" "same_partition p q" "p_pallet_id p < p_pallet_id q"
  shows "row_number rows p < row_number rows q"
proof -
  have "length (filter (\<lambda>qw. same_partition (fst qw) p \<and> p_pallet_id (fst qw) < p_pallet_id p) rows)
        < length (filter (\<lambda>qw. same_partition (fst qw) q \<and> p_pallet_id (fst qw) < p_pallet_id q) rows)"
  proof (rule length_filter_less [where y = "(p, w)"])
    fix x assume "x \<in> set rows"
      "same_partition (fst x) p \<and> p_pallet_id (fst x) < p_pallet_id p"
    with assms(2,3) show "same_partition (fst x) q \<and> p_pallet_id (fst x) < p_pallet_id q"
      by (auto intro: same_partition_trans)
  qed (use assms in simp_all)
  then show ?thesis by (simp add: row_number_def)
qed

lemma search_id_eq_rank:
  assumes "search_id rows (p, w) = search_id rows (q, w')"
  shows "w_workstation_index w = w_workstation_index w' \<and> p_row_idx p = p_row_idx q
     \<and> p_aisle_idx p = p_aisle_idx q \<and> p_floor_idx p = p_floor_idx q
     \<and> row_number rows p = row_number rows q"
  using concat_search_id_inj [OF assms [unfolded search_id_def Let_def fst_conv snd_conv]]
  by simp


lemma sample_workstation_indices: "distinct (map w_workstation_index sample_workstations)"
  by (simp add: sample_workstations_def)


text \<open>
  C1 (as stated): no two distinct pallets of a warehouse receive the same address, also
  when they lie on different sides of one workstation with the same floor, row and
  column. In the sample data of the schema, pallet 1 (workstation 1, left) and pallet 5
  (workstation 1, right) are both at floor 0, row 0, aisle 0; the side is part of the
  partition and not of the text, and both get \<open>WS1-R1-C1-F1-P1\<close>.
\<close>

theorem C1_addresses_distinct_counterexample:
  "r_pallet_id (search_id_query sample_pallets sample_workstations ! 0) = 1
   \<and> r_pallet_id (search_id_query sample_pallets sample_workstations ! 4) = 5
   \<and> r_side (search_id_query sample_pallets sample_workstations ! 0) = ''left''
   \<and> r_side (search_id_query sample_pallets sample_workstations ! 4) = ''right''
   \<and> r_search_id (search_id_query sample_pallets sample_workstations ! 0)
       = ''WS1-R1-C1-F1-P1''
   \<and> r_search_id (search_id_query sample_pallets sample_workstations ! 4)
       = ''WS1-R1-C1-F1-P1''"
  by code_simp

text \<open>
  C1 (amended): in a warehouse whose workstations have pairwise distinct
  \<open>workstation_index\<close> values, any two result rows of the query for different pallets on
  the same side carry different search identifiers.
\<close>

theorem C1_addresses_distinct_per_side:
  assumes idx: "distinct (map w_workstation_index ws)"
    and r1: "r1 \<in> set (search_id_query ps ws)" and r2: "r2 \<in> set (search_id_query ps ws)"
    and ne: "r_pallet_id r1 \<noteq> r_pallet_id r2"
    and side: "r_side r1 = r_side r2"
  shows "r_search_id r1 \<noteq> r_search_id r2"
proof
  assume eq: "r_search_id r1 = r_search_id r2"
  define rows where "rows = joined ps ws"
  from r1 obtain p w where pw: "(p, w) \<in> set rows" and
    r1': "r_pallet_id r1 = p_pallet_id p" "r_search_id r1 = search_id rows (p, w)" "r_side r1 = p_side p"
    by (auto simp add: search_id_query_def Let_def rows_def)
  from r2 obtain q w' where qw: "(q, w') \<in> set rows" and
    r2': "r_pallet_id r2 = p_pallet_id q" "r_search_id r2 = search_id rows (q, w')" "r_side r2 = p_side q"
    by (auto simp add: search_id_query_def Let_def rows_def)
  from eq r1' r2' have "search_id rows (p, w) = search_id rows (q, w')" by simp
  from search_id_eq_rank [OF this] have
    i: "w_workstation_index w = w_workstation_index w'" and
    k: "p_row_idx p = p_row_idx q" "p_aisle_idx p = p_aisle_idx q" "p_floor_idx p = p_floor_idx q" and
    rk: "row_number rows p = row_number rows q"
    by simp_all
  from pw qw have mem: "w \<in> set ws" "w' \<in> set ws"
    "p_workstation_id p = w_workstation_id w" "p_workstation_id q = w_workstation_id w'"
    by (simp_all add: rows_def in_joined)
  from idx mem(1,2) i have "w = w'"
    by (meson distinct_map inj_onD)
  with mem k side r1' r2' have part: "same_partition p q"
    by (simp add: same_partition_def)
  from ne r1' r2' consider "p_pallet_id p < p_pallet_id q" | "p_pallet_id q < p_pallet_id p"
    by linarith
  then show False
  proof cases
    case 1
    from row_number_less [OF pw part 1] rk show False by simp
  next
    case 2
    from row_number_less [OF qw same_partition_sym [OF part] 2] rk show False by simp
  qed
qed

theorem C1_addresses_distinct_per_side_witness:
  "r_pallet_id (search_id_query stacked_pallets sample_workstations ! 0) = 1
   \<and> r_pallet_id (search_id_query stacked_pallets sample_workstations ! 10) = 11
   \<and> r_side (search_id_query stacked_pallets sample_workstations ! 0)
       = r_side (search_id_query stacked_pallets sample_workstations ! 10)
   \<and> r_search_id (search_id_query stacked_pallets sample_workstations ! 0)
       \<noteq> r_search_id (search_id_query stacked_pallets sample_workstations ! 10)"
proof -
  let ?rs = "search_id_query stacked_pallets sample_workstations"
  have len: "length ?rs = 11" by code_simp
  have m0: "?rs ! 0 \<in> set ?rs" and m10: "?rs ! 10 \<in> set ?rs"
    by (simp_all add: len)
  have ids: "r_pallet_id (?rs ! 0) = 1" "r_pallet_id (?rs ! 10) = 11"
    by code_simp+
  have sd: "r_side (?rs ! 0) = r_side (?rs ! 10)"
    by code_simp
  from ids have ne: "r_pallet_id (?rs ! 0) \<noteq> r_pallet_id (?rs ! 10)" by simp
  from C1_addresses_distinct_per_side [OF sample_workstation_indices m0 m10 ne sd] ids sd
  show ?thesis by simp
qed

subsection \<open>The query against the specification's address\<close>










end
